theory Spec2Isabelle
  imports Complex_Main
begin

section \<open>PicConv: the image converter component (src/App.tsx)\<close>

text \<open>
  The component keeps a list of \<open>ImageFile\<close> entries in React state and converts them
  in the browser: an \<open>Image\<close> element decodes the entry's preview URL, a canvas of the
  same size receives the picture, \<open>canvas.toBlob\<close> encodes it, and the blob gets an
  object URL. The browser's answers (what decodes, whether a 2d context exists, what
  \<open>toBlob\<close> delivers, which UUIDs are drawn) are the fields of the record \<open>env\<close>;
  every theorem holds for every such browser. Calls into the browser are recorded, in
  program order, as a list of \<open>effect\<close> values.

  Names follow the source. The field \<open>id\<close> of an entry is \<open>imageId\<close> and a parameter
  \<open>image\<close> is \<open>image'\<close>, since \<open>id\<close> and \<open>image\<close> are constants of HOL; the global
  \<open>targetFormat\<close> of the component is the parameter \<open>globalFormat\<close>, the name
  \<open>targetFormat\<close> being the field of an entry.
\<close>

subsection \<open>Data\<close>

text \<open>
  Object URLs are the strings handed out by \<open>URL.createObjectURL\<close>. The program stores
  them, passes them back to the browser and tests them for truthiness; it never looks
  inside. A blob URL is never the empty string, so a truthiness test on
  \<open>string | null\<close> is a test against \<open>null\<close>. They are kept as opaque handles, numbered
  in the order of their creation.
\<close>

datatype url = ObjectURL nat

datatype Blob = Blob (blobType: string) (blobBytes: "nat list")

text \<open>
  A \<open>File\<close> as the constructor \<open>new File(parts, name, {type})\<close> builds it. The ten
  formats on offer are lower-case ASCII, which the constructor stores unchanged.
\<close>

record File =
  name :: string
  type :: string
  parts :: "Blob list"

record ImageFile =
  imageId :: string
  "file" :: File
  preview :: url
  convertedUrl :: "url option"
  converting :: bool
  error :: "string option"
  targetFormat :: string

text \<open>The canvas: its size and what has been painted on it, oldest first.\<close>

datatype paint =
    FillRect string nat nat nat nat
  | DrawImage url nat nat

record canvas =
  width :: nat
  height :: nat
  painted :: "paint list"

text \<open>What a \<open>catch\<close> clause can receive: an \<open>Error\<close> object or any other value.\<close>

datatype thrown = ErrorInstance string | OtherValue string

text \<open>\<open>canvas.toBlob\<close> either throws or calls back with a blob or with \<open>null\<close>.\<close>

datatype toBlob_outcome = Throws thrown | Callback "Blob option"

record env =
  randomUUID :: "nat \<Rightarrow> string"
  decodeImage :: "url \<Rightarrow> (nat \<times> nat) option"
  context2d :: "nat \<Rightarrow> nat \<Rightarrow> bool"
  toBlob :: "canvas \<Rightarrow> string \<Rightarrow> rat option \<Rightarrow> toBlob_outcome"

text \<open>
  The browser state the program moves: how many object URLs and how many UUIDs have
  been handed out so far.
\<close>

record browser =
  urlCount :: nat
  uuidCount :: nat

datatype url_source = FromFile File | FromBlob Blob

datatype anchor = Anchor (href: url) (download: string)

datatype effect =
    NewPromise ImageFile
  | SetImgSrc url
  | CreateCanvas nat nat
  | GetContext2d
  | Paint paint
  | ToBlob string "rat option"
  | CreateObjectURL url_source url
  | RevokeObjectURL url
  | Resolve ImageFile
  | SetImages "ImageFile list"
  | SetIsConverting bool
  | AppendChild anchor
  | Click anchor
  | RemoveChild anchor
  | ResetFileInput

datatype 'a settled = Resolved 'a | Rejected string

subsection \<open>Browser primitives\<close>

definition issued :: "browser \<Rightarrow> url set" where
  "issued b = ObjectURL ` {..< urlCount b}"

definition createObjectURL :: "browser \<Rightarrow> url \<times> browser" where
  "createObjectURL b = (ObjectURL (urlCount b), b\<lparr>urlCount := Suc (urlCount b)\<rparr>)"

definition nextUUID :: "env \<Rightarrow> browser \<Rightarrow> string \<times> browser" where
  "nextUUID e b = (randomUUID e (uuidCount b), b\<lparr>uuidCount := Suc (uuidCount b)\<rparr>)"

text \<open>
  \<open>String.prototype.split\<close> with a one-character separator: the pieces between the
  separators, always at least one piece. The separators used are ASCII, so the pieces
  are the same whether a string is read as UTF-16 units or as bytes.
\<close>

fun split :: "char \<Rightarrow> string \<Rightarrow> string list" where
  "split c [] = [[]]"
| "split c (x # xs) =
     (if x = c then [] # split c xs
      else (case split c xs of
              p # ps \<Rightarrow> (x # p) # ps
            | [] \<Rightarrow> [[x]]))"

text \<open>
  Indexing an array: \<open>undefined\<close> outside its bounds, which a template literal and
  string concatenation print as the word.
\<close>

definition elemAt :: "string list \<Rightarrow> int \<Rightarrow> string option" where
  "elemAt xs i = (if 0 \<le> i \<and> i < int (length xs) then Some (xs ! nat i) else None)"

definition shown :: "string option \<Rightarrow> string" where
  "shown v = (case v of Some s \<Rightarrow> s | None \<Rightarrow> ''undefined'')"

definition message :: "thrown \<Rightarrow> string" where
  "message t = (case t of ErrorInstance m \<Rightarrow> m | OtherValue s \<Rightarrow> s)"

subsection \<open>convertImage\<close>

text \<open>
  The promise of \<open>convertImage\<close>. \<open>NewPromise\<close> marks the call, \<open>Resolve\<close> the call of
  \<open>resolve\<close>; the executor has no \<open>reject\<close>. \<open>decodeImage\<close> answers \<open>None\<close> when the
  \<open>error\<close> event of the \<open>Image\<close> fires and the picture's size when \<open>load\<close> fires.
\<close>

definition convertImage ::
  "env \<Rightarrow> browser \<Rightarrow> ImageFile \<Rightarrow> effect list \<times> browser \<times> ImageFile settled" where
  "convertImage e b image' =
     (case decodeImage e (preview image') of
        None \<Rightarrow>
          (let r = image'\<lparr>converting := False, error := Some ''Failed to load image''\<rparr>
           in ([NewPromise image', SetImgSrc (preview image'), Resolve r], b, Resolved r))
      | Some (w, h) \<Rightarrow>
          if \<not> context2d e w h then
            (let r = image'\<lparr>converting := False, error := Some ''Failed to get canvas context''\<rparr>
             in ([NewPromise image', SetImgSrc (preview image'),
                  CreateCanvas w h, GetContext2d, Resolve r], b, Resolved r))
          else
            (let fill = (if targetFormat image' = ''image/jpeg'' \<or> targetFormat image' = ''image/bmp''
                         then [FillRect ''#FFFFFF'' 0 0 w h] else []);
                 draw = fill @ [DrawImage (preview image') 0 0];
                 cv = \<lparr>width = w, height = h, painted = draw\<rparr>;
                 formatParts = split CHR ''/'' (targetFormat image');
                 extension = elemAt formatParts (int (length formatParts) - 1);
                 quality = (if targetFormat image' = ''image/jpeg'' then Some (95 / 100) else None);
                 before = [NewPromise image', SetImgSrc (preview image'),
                           CreateCanvas w h, GetContext2d] @ map Paint draw
                          @ [ToBlob (targetFormat image') quality]
             in case toBlob e cv (targetFormat image') quality of
                  Throws t \<Rightarrow>
                    (let r = image'\<lparr>converting := False,
                                   error := Some (''Conversion failed: '' @ message t)\<rparr>
                     in (before @ [Resolve r], b, Resolved r))
                | Callback None \<Rightarrow>
                    (let r = image'\<lparr>converting := False, error := Some ''Conversion failed''\<rparr>
                     in (before @ [Resolve r], b, Resolved r))
                | Callback (Some blob) \<Rightarrow>
                    (let convertedFile =
                           \<lparr>name = shown (elemAt (split CHR ''.'' (name (file image'))) 0)
                                    @ ''.'' @ shown extension,
                            type = targetFormat image',
                            parts = [blob]\<rparr>;
                         (u, b') = createObjectURL b;
                         r = image'\<lparr>file := convertedFile, convertedUrl := Some u,
                                   converting := False, error := None\<rparr>
                     in (before @ [CreateObjectURL (FromBlob blob) u, Resolve r], b', Resolved r))))"

subsection \<open>Adding and removing entries\<close>

text \<open>One new entry per file, with the format of the global selector at that time.\<close>

fun newFiles ::
  "env \<Rightarrow> string \<Rightarrow> File list \<Rightarrow> browser \<Rightarrow> effect list \<times> browser \<times> ImageFile list" where
  "newFiles e globalFormat [] b = ([], b, [])"
| "newFiles e globalFormat (f # fs) b =
     (let (i, b1) = nextUUID e b;
          (u, b2) = createObjectURL b1;
          entry = \<lparr>imageId = i, file = f, preview = u, convertedUrl = None,
                   converting = False, error = None, targetFormat = globalFormat\<rparr>;
          (es, b3, entries) = newFiles e globalFormat fs b2
      in (CreateObjectURL (FromFile f) u # es, b3, entry # entries))"

text \<open>
  \<open>e.target.files\<close> is a list of files or \<open>null\<close>. The change event comes from the file
  input the ref points to, so the ref is set and the input is reset.
\<close>

definition handleFileSelect ::
  "env \<Rightarrow> string \<Rightarrow> File list option \<Rightarrow> browser \<Rightarrow> ImageFile list
     \<Rightarrow> effect list \<times> browser \<times> ImageFile list" where
  "handleFileSelect e globalFormat files b prev =
     (case files of
        None \<Rightarrow> ([], b, prev)
      | Some fs \<Rightarrow>
          if length fs = 0 then ([], b, prev)
          else (let (es, b1, entries) = newFiles e globalFormat fs b
                in (es @ [SetImages (prev @ entries), ResetFileInput], b1, prev @ entries)))"

definition startsWith :: "string \<Rightarrow> string \<Rightarrow> bool" where
  "startsWith s p \<longleftrightarrow> take (length p) s = p"

definition handleDrop ::
  "env \<Rightarrow> string \<Rightarrow> File list option \<Rightarrow> browser \<Rightarrow> ImageFile list
     \<Rightarrow> effect list \<times> browser \<times> ImageFile list" where
  "handleDrop e globalFormat files b prev =
     (case files of
        None \<Rightarrow> ([], b, prev)
      | Some fs \<Rightarrow>
          if length fs = 0 then ([], b, prev)
          else (let imageFiles = filter (\<lambda>f. startsWith (type f) ''image/'') fs
                in if length imageFiles = 0 then ([], b, prev)
                   else (let (es, b1, entries) = newFiles e globalFormat imageFiles b
                         in (es @ [SetImages (prev @ entries)], b1, prev @ entries))))"

text \<open>The object URLs an entry holds: its preview and, once converted, the result.\<close>

definition revokeUrls :: "ImageFile \<Rightarrow> effect list" where
  "revokeUrls img =
     RevokeObjectURL (preview img)
       # (case convertedUrl img of None \<Rightarrow> [] | Some u \<Rightarrow> [RevokeObjectURL u])"

definition removeImage :: "string \<Rightarrow> ImageFile list \<Rightarrow> effect list \<times> ImageFile list" where
  "removeImage i prev =
     (let updatedImages = filter (\<lambda>img. imageId img \<noteq> i) prev;
          imageToRemove = find (\<lambda>img. imageId img = i) prev
      in ((case imageToRemove of None \<Rightarrow> [] | Some img \<Rightarrow> revokeUrls img)
            @ [SetImages updatedImages],
          updatedImages))"

definition clearAllImages :: "ImageFile list \<Rightarrow> effect list \<times> ImageFile list" where
  "clearAllImages images = (concat (map revokeUrls images) @ [SetImages []], [])"

subsection \<open>Choosing formats\<close>

definition updateImageTargetFormat :: "string \<Rightarrow> string \<Rightarrow> ImageFile list \<Rightarrow> ImageFile list" where
  "updateImageTargetFormat i format prev =
     map (\<lambda>img. if imageId img = i
                then img\<lparr>targetFormat := format, convertedUrl := None, error := None\<rparr>
                else img) prev"

definition applyGlobalFormatToAll :: "string \<Rightarrow> ImageFile list \<Rightarrow> ImageFile list" where
  "applyGlobalFormatToAll globalFormat prev =
     map (\<lambda>img. img\<lparr>targetFormat := globalFormat, convertedUrl := None, error := None\<rparr>) prev"

subsection \<open>convertAllImages\<close>

text \<open>
  The \<open>for\<close> loop with its \<open>await\<close>: \<open>images\<close> is the list the callback closed over,
  \<open>prev\<close> the list React holds. A rejected promise would end the loop by an exception.
  The local array \<open>convertedImages\<close> is written and never read; it is left out.
\<close>

fun convertEach ::
  "env \<Rightarrow> ImageFile list \<Rightarrow> browser \<Rightarrow> ImageFile list
     \<Rightarrow> effect list \<times> browser \<times> ImageFile list \<times> unit settled" where
  "convertEach e [] b prev = ([], b, prev, Resolved ())"
| "convertEach e (image' # rest) b prev =
     (case convertImage e b image' of
        (es, b1, Rejected why) \<Rightarrow> (es, b1, prev, Rejected why)
      | (es, b1, Resolved convertedImage) \<Rightarrow>
          (let prev1 = map (\<lambda>img. if imageId img = imageId convertedImage
                                 then convertedImage else img) prev;
               (es', b2, prev2, out) = convertEach e rest b1 prev1
           in (es @ [SetImages prev1] @ es', b2, prev2, out)))"

definition convertAllImages ::
  "env \<Rightarrow> ImageFile list \<Rightarrow> browser \<Rightarrow> ImageFile list
     \<Rightarrow> effect list \<times> browser \<times> ImageFile list \<times> unit settled" where
  "convertAllImages e images b prev =
     (if length images = 0 then ([], b, prev, Resolved ())
      else (let prev0 = map (\<lambda>img. img\<lparr>converting := True, error := None\<rparr>) prev;
                (es, b1, prev1, out) = convertEach e images b prev0
            in case out of
                 Rejected why \<Rightarrow>
                   ([SetIsConverting True, SetImages prev0] @ es, b1, prev1, Rejected why)
               | Resolved _ \<Rightarrow>
                   ([SetIsConverting True, SetImages prev0] @ es @ [SetIsConverting False],
                    b1, prev1, Resolved ())))"

subsection \<open>Downloading\<close>

definition downloadImage :: "ImageFile \<Rightarrow> effect list" where
  "downloadImage image' =
     (case convertedUrl image' of
        None \<Rightarrow> []
      | Some u \<Rightarrow>
          (let link = Anchor u (name (file image'))
           in [AppendChild link, Click link, RemoveChild link]))"

definition downloadAllImages :: "ImageFile list \<Rightarrow> effect list" where
  "downloadAllImages images =
     concat (map (\<lambda>image'. if convertedUrl image' \<noteq> None then downloadImage image' else [])
               images)"

subsection \<open>Observations\<close>

text \<open>
  The canvas as \<open>convertImage\<close> has painted it when it calls \<open>toBlob\<close>, the quality it
  passes, and the browser's answer to that call.
\<close>

definition canvasFor :: "ImageFile \<Rightarrow> nat \<Rightarrow> nat \<Rightarrow> canvas" where
  "canvasFor image' w h =
     \<lparr>width = w, height = h,
      painted = (if targetFormat image' = ''image/jpeg'' \<or> targetFormat image' = ''image/bmp''
                 then [FillRect ''#FFFFFF'' 0 0 w h] else [])
                @ [DrawImage (preview image') 0 0]\<rparr>"

definition qualityFor :: "ImageFile \<Rightarrow> rat option" where
  "qualityFor image' = (if targetFormat image' = ''image/jpeg'' then Some (95 / 100) else None)"

definition encoded :: "env \<Rightarrow> ImageFile \<Rightarrow> nat \<Rightarrow> nat \<Rightarrow> toBlob_outcome" where
  "encoded e image' w h = toBlob e (canvasFor image' w h) (targetFormat image') (qualityFor image')"

text \<open>The calls up to and including \<open>toBlob\<close>.\<close>

definition pipeline :: "ImageFile \<Rightarrow> nat \<Rightarrow> nat \<Rightarrow> effect list" where
  "pipeline image' w h =
     [NewPromise image', SetImgSrc (preview image'), CreateCanvas w h, GetContext2d]
       @ map Paint (painted (canvasFor image' w h))
       @ [ToBlob (targetFormat image') (qualityFor image')]"

definition failure :: "ImageFile \<Rightarrow> string \<Rightarrow> ImageFile" where
  "failure image' why = image'\<lparr>converting := False, error := Some why\<rparr>"

text \<open>
  The result of a conversion, with the file name in the words of the specification: the
  part of the old name before its first dot, a dot, and the part of the mime type after
  its last slash.
\<close>

definition success :: "ImageFile \<Rightarrow> Blob \<Rightarrow> url \<Rightarrow> ImageFile" where
  "success image' blob u =
     image'\<lparr>file := \<lparr>name = takeWhile (\<lambda>x. x \<noteq> CHR ''.'') (name (file image')) @ ''.''
                            @ rev (takeWhile (\<lambda>x. x \<noteq> CHR ''/'') (rev (targetFormat image'))),
                     type = targetFormat image', parts = [blob]\<rparr>,
             convertedUrl := Some u, converting := False, error := None\<rparr>"

text \<open>
  A conversion fails when the image does not load, when there is no 2d context, when
  \<open>toBlob\<close> throws, or when it calls back with \<open>null\<close>.
\<close>

definition conversionFailed :: "env \<Rightarrow> ImageFile \<Rightarrow> bool" where
  "conversionFailed e image' =
     (case decodeImage e (preview image') of
        None \<Rightarrow> True
      | Some (w, h) \<Rightarrow>
          if \<not> context2d e w h then True
          else (case encoded e image' w h of
                  Throws t \<Rightarrow> True
                | Callback None \<Rightarrow> True
                | Callback (Some blob) \<Rightarrow> False))"

text \<open>What a trace painted on the canvas, in order.\<close>

fun paints :: "effect list \<Rightarrow> paint list" where
  "paints [] = []"
| "paints (Paint p # es) = p # paints es"
| "paints (x # es) = paints es"

text \<open>Projections of a trace: the URLs revoked, the anchors clicked, the formats asked of
  \<open>toBlob\<close>, the images handed to \<open>convertImage\<close> and the records it resolved with.\<close>

fun revoked :: "effect list \<Rightarrow> url list" where
  "revoked [] = []"
| "revoked (RevokeObjectURL u # es) = u # revoked es"
| "revoked (x # es) = revoked es"

fun clicks :: "effect list \<Rightarrow> anchor list" where
  "clicks [] = []"
| "clicks (Click a # es) = a # clicks es"
| "clicks (x # es) = clicks es"

fun encodings :: "effect list \<Rightarrow> string list" where
  "encodings [] = []"
| "encodings (ToBlob format q # es) = format # encodings es"
| "encodings (x # es) = encodings es"

fun conversions :: "effect list \<Rightarrow> ImageFile list" where
  "conversions [] = []"
| "conversions (NewPromise i # es) = i # conversions es"
| "conversions (x # es) = conversions es"

fun resolutions :: "effect list \<Rightarrow> ImageFile list" where
  "resolutions [] = []"
| "resolutions (Resolve r # es) = r # resolutions es"
| "resolutions (x # es) = resolutions es"

text \<open>The object URLs a trace created, in order.\<close>

fun created :: "effect list \<Rightarrow> url list" where
  "created [] = []"
| "created (CreateObjectURL src u # es) = u # created es"
| "created (x # es) = created es"

text \<open>The object URLs an entry holds.\<close>

definition heldUrls :: "ImageFile \<Rightarrow> url list" where
  "heldUrls img = preview img # (case convertedUrl img of None \<Rightarrow> [] | Some u \<Rightarrow> [u])"

text \<open>
  One conversion at a time, read off a trace. A promise is created only when none is
  pending; it resolves only when pending; right after it resolves the list is set to
  the previous list with the result in place of the entries of the same id, and nothing
  else happens in between. \<open>cur\<close> is the list as last set.
\<close>

datatype phase = Idle | InFlight | Settled ImageFile

fun sequential :: "phase \<Rightarrow> ImageFile list \<Rightarrow> effect list \<Rightarrow> bool" where
  "sequential ph cur [] = (ph = Idle)"
| "sequential ph cur (NewPromise i # es) = (ph = Idle \<and> sequential InFlight cur es)"
| "sequential ph cur (Resolve r # es) = (ph = InFlight \<and> sequential (Settled r) cur es)"
| "sequential ph cur (SetImages st # es) =
     (case ph of
        Idle \<Rightarrow> sequential Idle st es
      | InFlight \<Rightarrow> sequential InFlight st es
      | Settled r \<Rightarrow>
          st = map (\<lambda>img. if imageId img = imageId r then r else img) cur
          \<and> sequential Idle st es)"
| "sequential ph cur (x # es) =
     (case ph of Settled r \<Rightarrow> False | Idle \<Rightarrow> sequential Idle cur es
      | InFlight \<Rightarrow> sequential InFlight cur es)"

text \<open>Calls that neither create nor resolve a promise nor set the list.\<close>

fun browserCall :: "effect \<Rightarrow> bool" where
  "browserCall (NewPromise i) = False"
| "browserCall (Resolve r) = False"
| "browserCall (SetImages st) = False"
| "browserCall x = True"

subsection \<open>Sample inputs\<close>

text \<open>
  A browser in which every object URL but number 9 decodes to a picture of 4 by 3
  pixels, a 2d context is always available and \<open>toBlob\<close> always delivers a blob.
\<close>

definition sampleEnv :: env where
  "sampleEnv =
     \<lparr>randomUUID = (\<lambda>n. replicate (Suc n) CHR ''u''),
      decodeImage = (\<lambda>u. if u = ObjectURL 9 then None else Some (4, 3)),
      context2d = (\<lambda>w h. True),
      toBlob = (\<lambda>cv format q. Callback (Some (Blob format [length (painted cv)])))\<rparr>"

definition twoIssued :: browser where
  "twoIssued = \<lparr>urlCount = 2, uuidCount = 2\<rparr>"

definition threeIssued :: browser where
  "threeIssued = \<lparr>urlCount = 3, uuidCount = 2\<rparr>"

definition holiday :: ImageFile where
  "holiday =
     \<lparr>imageId = ''a'',
      file = \<lparr>name = ''my.holiday.png'', type = ''image/png'', parts = [Blob ''image/png'' [1]]\<rparr>,
      preview = ObjectURL 0, convertedUrl = None, converting = False, error = None,
      targetFormat = ''image/jpeg''\<rparr>"

definition logo :: ImageFile where
  "logo =
     \<lparr>imageId = ''b'',
      file = \<lparr>name = ''logo.png'', type = ''image/png'', parts = [Blob ''image/png'' [2]]\<rparr>,
      preview = ObjectURL 1, convertedUrl = None, converting = False, error = None,
      targetFormat = ''image/svg+xml''\<rparr>"

definition broken :: ImageFile where
  "broken =
     \<lparr>imageId = ''c'',
      file = \<lparr>name = ''broken.gif'', type = ''image/gif'', parts = [Blob ''image/gif'' []]\<rparr>,
      preview = ObjectURL 9, convertedUrl = None, converting = False, error = None,
      targetFormat = ''image/png''\<rparr>"

definition logoConverted :: ImageFile where
  "logoConverted =
     logo\<lparr>file := \<lparr>name = ''logo.svg+xml'', type = ''image/svg+xml'',
                   parts = [Blob ''image/svg+xml'' [1]]\<rparr>,
          convertedUrl := Some (ObjectURL 2)\<rparr>"

definition favicon :: ImageFile where
  "favicon =
     \<lparr>imageId = ''d'',
      file = \<lparr>name = ''site.icon.v2.png'', type = ''image/png'', parts = [Blob ''image/png'' [3]]\<rparr>,
      preview = ObjectURL 1, convertedUrl = None, converting = False, error = None,
      targetFormat = ''image/x-icon''\<rparr>"

definition faviconConverted :: ImageFile where
  "faviconConverted =
     favicon\<lparr>file := \<lparr>name = ''site.x-icon'', type = ''image/x-icon'',
                      parts = [Blob ''image/x-icon'' [1]]\<rparr>,
             convertedUrl := Some (ObjectURL 2)\<rparr>"

definition holidayConverted :: ImageFile where
  "holidayConverted =
     holiday\<lparr>file := \<lparr>name = ''my.jpeg'', type = ''image/jpeg'',
                      parts = [Blob ''image/jpeg'' [2]]\<rparr>,
             convertedUrl := Some (ObjectURL 2)\<rparr>"

definition brokenFailed :: ImageFile where
  "brokenFailed = broken\<lparr>error := Some ''Failed to load image''\<rparr>"

section \<open>Properties\<close>

subsection \<open>Splitting strings\<close>

lemma split_not_Nil: "split c s \<noteq> []"
  by (induction s) (auto split: list.splits)

lemma hd_split: "hd (split c s) = takeWhile (\<lambda>x. x \<noteq> c) s"
  by (induction s) (auto split: list.splits simp: split_not_Nil)

lemma split_no_sep: "c \<notin> set s \<Longrightarrow> split c s = [s]"
  by (induction s) auto

lemma split_sep: "c \<in> set s \<Longrightarrow> tl (split c s) \<noteq> []"
  by (induction s) (auto split: list.splits simp: split_not_Nil)

lemma takeWhile_snoc_sep:
  "takeWhile (\<lambda>x. x \<noteq> c) (ys @ [x]) =
     (if c \<in> set ys then takeWhile (\<lambda>x. x \<noteq> c) ys
      else if x = c then ys else ys @ [x])"
  by (induction ys) auto

lemma last_split: "last (split c s) = rev (takeWhile (\<lambda>x. x \<noteq> c) (rev s))"
proof (induction s)
  case Nil
  show ?case by simp
next
  case (Cons x xs)
  show ?case
  proof (cases "x = c")
    case True
    then show ?thesis
      using Cons.IH split_no_sep [of c xs]
      by (auto simp: split_not_Nil takeWhile_snoc_sep)
  next
    case False
    show ?thesis
    proof (cases "c \<in> set xs")
      case True
      obtain p ps where sp: "split c xs = p # ps"
        using split_not_Nil [of c xs] by (cases "split c xs") auto
      with split_sep [OF True] have "ps \<noteq> []" by simp
      with sp False True Cons.IH show ?thesis
        by (simp add: takeWhile_snoc_sep)
    next
      case notin: False
      with False show ?thesis
        by (simp add: split_no_sep takeWhile_snoc_sep)
    qed
  qed
qed

lemma first_piece: "shown (elemAt (split c s) 0) = takeWhile (\<lambda>x. x \<noteq> c) s"
  using split_not_Nil [of c s] hd_split [of c s]
  by (cases "split c s") (auto simp: shown_def elemAt_def)

lemma last_piece:
  "shown (elemAt (split c s) (int (length (split c s)) - 1)) =
     rev (takeWhile (\<lambda>x. x \<noteq> c) (rev s))"
  using split_not_Nil [of c s] last_split [of c s]
  by (cases "split c s" rule: rev_cases) (auto simp: shown_def elemAt_def nth_append)

subsection \<open>The five ways through convertImage\<close>

lemma convertImage_load_error:
  "decodeImage e (preview image') = None \<Longrightarrow>
   convertImage e b image' =
     ([NewPromise image', SetImgSrc (preview image'),
       Resolve (failure image' ''Failed to load image'')],
      b, Resolved (failure image' ''Failed to load image''))"
  by (simp add: convertImage_def failure_def Let_def)

lemma convertImage_no_context:
  "decodeImage e (preview image') = Some (w, h) \<Longrightarrow> \<not> context2d e w h \<Longrightarrow>
   convertImage e b image' =
     ([NewPromise image', SetImgSrc (preview image'), CreateCanvas w h, GetContext2d,
       Resolve (failure image' ''Failed to get canvas context'')],
      b, Resolved (failure image' ''Failed to get canvas context''))"
  by (simp add: convertImage_def failure_def Let_def)

lemma convertImage_throws:
  "decodeImage e (preview image') = Some (w, h) \<Longrightarrow> context2d e w h \<Longrightarrow>
   encoded e image' w h = Throws t \<Longrightarrow>
   convertImage e b image' =
     (pipeline image' w h @ [Resolve (failure image' (''Conversion failed: '' @ message t))],
      b, Resolved (failure image' (''Conversion failed: '' @ message t)))"
  by (simp add: convertImage_def failure_def encoded_def canvasFor_def qualityFor_def
      pipeline_def Let_def)

lemma convertImage_null:
  "decodeImage e (preview image') = Some (w, h) \<Longrightarrow> context2d e w h \<Longrightarrow>
   encoded e image' w h = Callback None \<Longrightarrow>
   convertImage e b image' =
     (pipeline image' w h @ [Resolve (failure image' ''Conversion failed'')],
      b, Resolved (failure image' ''Conversion failed''))"
  by (simp add: convertImage_def failure_def encoded_def canvasFor_def qualityFor_def
      pipeline_def Let_def)

lemma convertImage_blob:
  "decodeImage e (preview image') = Some (w, h) \<Longrightarrow> context2d e w h \<Longrightarrow>
   encoded e image' w h = Callback (Some blob) \<Longrightarrow>
   convertImage e b image' =
     (pipeline image' w h @ [CreateObjectURL (FromBlob blob) (ObjectURL (urlCount b)),
                             Resolve (success image' blob (ObjectURL (urlCount b)))],
      b\<lparr>urlCount := Suc (urlCount b)\<rparr>,
      Resolved (success image' blob (ObjectURL (urlCount b))))"
  by (simp add: convertImage_def success_def encoded_def canvasFor_def qualityFor_def
      pipeline_def Let_def createObjectURL_def first_piece last_piece)

lemma convertImage_cases:
  obtains (load_error) "decodeImage e (preview image') = None"
  | (no_context) w h where "decodeImage e (preview image') = Some (w, h)" "\<not> context2d e w h"
  | (throws) w h t where "decodeImage e (preview image') = Some (w, h)" "context2d e w h"
      "encoded e image' w h = Throws t"
  | (null) w h where "decodeImage e (preview image') = Some (w, h)" "context2d e w h"
      "encoded e image' w h = Callback None"
  | (blob) w h bl where "decodeImage e (preview image') = Some (w, h)" "context2d e w h"
      "encoded e image' w h = Callback (Some bl)"
proof (cases "decodeImage e (preview image')")
  case None
  then show ?thesis by (rule load_error)
next
  case (Some wh)
  obtain w h where wh: "wh = (w, h)" by (cases wh)
  show ?thesis
  proof (cases "context2d e w h")
    case False
    with Some wh show ?thesis by (auto intro: no_context)
  next
    case True
    show ?thesis
    proof (cases "encoded e image' w h")
      case (Throws t)
      with Some wh True show ?thesis by (auto intro: throws)
    next
      case (Callback r)
      with Some wh True show ?thesis by (cases r) (auto intro: null blob)
    qed
  qed
qed

lemma paints_append: "paints (xs @ ys) = paints xs @ paints ys"
  by (induction xs rule: paints.induct) auto

lemma paints_map_Paint: "paints (map Paint ps) = ps"
  by (induction ps) auto

lemma paints_pipeline: "paints (pipeline image' w h) = painted (canvasFor image' w h)"
  by (simp add: pipeline_def paints_append paints_map_Paint)


lemma logo_run:
  "convertImage sampleEnv twoIssued logo =
     ([NewPromise logo, SetImgSrc (ObjectURL 1), CreateCanvas 4 3, GetContext2d,
       Paint (DrawImage (ObjectURL 1) 0 0), ToBlob ''image/svg+xml'' None,
       CreateObjectURL (FromBlob (Blob ''image/svg+xml'' [1])) (ObjectURL 2),
       Resolve logoConverted],
      \<lparr>urlCount = 3, uuidCount = 2\<rparr>, Resolved logoConverted)"
  by (simp add: convertImage_def sampleEnv_def logo_def logoConverted_def twoIssued_def Let_def
      createObjectURL_def elemAt_def shown_def)

lemma favicon_run:
  "convertImage sampleEnv twoIssued favicon =
     ([NewPromise favicon, SetImgSrc (ObjectURL 1), CreateCanvas 4 3, GetContext2d,
       Paint (DrawImage (ObjectURL 1) 0 0), ToBlob ''image/x-icon'' None,
       CreateObjectURL (FromBlob (Blob ''image/x-icon'' [1])) (ObjectURL 2),
       Resolve faviconConverted],
      \<lparr>urlCount = 3, uuidCount = 2\<rparr>, Resolved faviconConverted)"
  by (simp add: convertImage_def sampleEnv_def favicon_def faviconConverted_def twoIssued_def
      Let_def createObjectURL_def elemAt_def shown_def)

subsection \<open>The conversion pipeline\<close>

text \<open>
  Claim C1. When the image decodes to \<open>w\<close> by \<open>h\<close> pixels and a 2d context is there,
  \<open>convertImage\<close> sets the image source, creates a canvas of \<open>w\<close> by \<open>h\<close>, paints it (the
  last paint is the decoded image at the origin) and calls \<open>toBlob\<close> with the image's own
  target format. When \<open>toBlob\<close> delivers a blob, an object URL that was not issued before
  is created for that blob, and the promise resolves with the image whose
  \<open>convertedUrl\<close> is that URL, whose file has the target format as its type and the blob
  as its content, whose error is \<open>null\<close>; the other fields are the input's.
\<close>

theorem convertImage_pipeline:
  assumes dec: "decodeImage e (preview image') = Some (w, h)"
      and ctx: "context2d e w h"
  shows "(\<exists>rest. fst (convertImage e b image') =
             [NewPromise image', SetImgSrc (preview image'), CreateCanvas w h, GetContext2d]
             @ map Paint (painted (canvasFor image' w h))
             @ ToBlob (targetFormat image') (qualityFor image') # rest)
       \<and> width (canvasFor image' w h) = w \<and> height (canvasFor image' w h) = h
       \<and> last (painted (canvasFor image' w h)) = DrawImage (preview image') 0 0
       \<and> (\<forall>blob. toBlob e (canvasFor image' w h) (targetFormat image') (qualityFor image')
                    = Callback (Some blob) \<longrightarrow>
             (\<exists>u r b'. convertImage e b image' =
                  ([NewPromise image', SetImgSrc (preview image'), CreateCanvas w h, GetContext2d]
                   @ map Paint (painted (canvasFor image' w h))
                   @ [ToBlob (targetFormat image') (qualityFor image'),
                      CreateObjectURL (FromBlob blob) u, Resolve r],
                   b', Resolved r)
                \<and> u \<notin> issued b \<and> issued b' = insert u (issued b)
                \<and> r = image'\<lparr>file := file r, convertedUrl := Some u,
                              converting := False, error := None\<rparr>
                \<and> type (file r) = targetFormat image' \<and> parts (file r) = [blob]))"
proof (cases "encoded e image' w h")
  case (Throws t)
  with dec ctx show ?thesis
    by (simp add: convertImage_throws pipeline_def canvasFor_def encoded_def)
next
  case (Callback r)
  show ?thesis
  proof (cases r)
    case None
    with Callback dec ctx show ?thesis
      by (simp add: convertImage_null pipeline_def canvasFor_def encoded_def)
  next
    case (Some bl)
    have fresh: "ObjectURL (urlCount b) \<notin> issued b"
      by (auto simp: issued_def)
    have grown: "issued (b\<lparr>urlCount := Suc (urlCount b)\<rparr>) = insert (ObjectURL (urlCount b)) (issued b)"
      by (auto simp: issued_def lessThan_Suc)
    from Some Callback dec ctx fresh grown show ?thesis
      by (simp add: convertImage_blob pipeline_def canvasFor_def encoded_def success_def)
  qed
qed

theorem convertImage_pipeline_witness:
  "decodeImage sampleEnv (preview holiday) = Some (4, 3) \<and> context2d sampleEnv 4 3
   \<and> toBlob sampleEnv (canvasFor holiday 4 3) (targetFormat holiday) (qualityFor holiday)
       = Callback (Some (Blob ''image/jpeg'' [2]))
   \<and> convertImage sampleEnv twoIssued holiday =
       ([NewPromise holiday, SetImgSrc (ObjectURL 0), CreateCanvas 4 3, GetContext2d,
         Paint (FillRect ''#FFFFFF'' 0 0 4 3), Paint (DrawImage (ObjectURL 0) 0 0),
         ToBlob ''image/jpeg'' (Some (95 / 100)),
         CreateObjectURL (FromBlob (Blob ''image/jpeg'' [2])) (ObjectURL 2),
         Resolve (holiday\<lparr>file := \<lparr>name = ''my.jpeg'', type = ''image/jpeg'',
                                    parts = [Blob ''image/jpeg'' [2]]\<rparr>,
                          convertedUrl := Some (ObjectURL 2)\<rparr>)],
        \<lparr>urlCount = 3, uuidCount = 2\<rparr>,
        Resolved (holiday\<lparr>file := \<lparr>name = ''my.jpeg'', type = ''image/jpeg'',
                                    parts = [Blob ''image/jpeg'' [2]]\<rparr>,
                          convertedUrl := Some (ObjectURL 2)\<rparr>))"
proof -
  have dec: "decodeImage sampleEnv (preview holiday) = Some (4, 3)"
    by (simp add: sampleEnv_def holiday_def)
  have ctx: "context2d sampleEnv 4 3"
    by (simp add: sampleEnv_def)
  have enc: "toBlob sampleEnv (canvasFor holiday 4 3) (targetFormat holiday) (qualityFor holiday)
       = Callback (Some (Blob ''image/jpeg'' [2]))"
    by (simp add: sampleEnv_def holiday_def canvasFor_def)
  have cv: "painted (canvasFor holiday 4 3) = [FillRect ''#FFFFFF'' 0 0 4 3, DrawImage (ObjectURL 0) 0 0]"
    by (simp add: holiday_def canvasFor_def)
  have q: "qualityFor holiday = Some (95 / 100)"
    by (simp add: holiday_def qualityFor_def)
  have tf: "targetFormat holiday = ''image/jpeg''" "preview holiday = ObjectURL 0"
    by (simp_all add: holiday_def)
  from convertImage_pipeline [OF dec ctx, of twoIssued] enc
  obtain u r b' where run: "convertImage sampleEnv twoIssued holiday =
      ([NewPromise holiday, SetImgSrc (preview holiday), CreateCanvas 4 3, GetContext2d]
         @ map Paint (painted (canvasFor holiday 4 3))
         @ [ToBlob (targetFormat holiday) (qualityFor holiday),
            CreateObjectURL (FromBlob (Blob ''image/jpeg'' [2])) u, Resolve r],
       b', Resolved r)"
    by blast
  have direct: "convertImage sampleEnv twoIssued holiday =
       ([NewPromise holiday, SetImgSrc (ObjectURL 0), CreateCanvas 4 3, GetContext2d,
         Paint (FillRect ''#FFFFFF'' 0 0 4 3), Paint (DrawImage (ObjectURL 0) 0 0),
         ToBlob ''image/jpeg'' (Some (95 / 100)),
         CreateObjectURL (FromBlob (Blob ''image/jpeg'' [2])) (ObjectURL 2),
         Resolve (holiday\<lparr>file := \<lparr>name = ''my.jpeg'', type = ''image/jpeg'',
                                    parts = [Blob ''image/jpeg'' [2]]\<rparr>,
                          convertedUrl := Some (ObjectURL 2)\<rparr>)],
        \<lparr>urlCount = 3, uuidCount = 2\<rparr>,
        Resolved (holiday\<lparr>file := \<lparr>name = ''my.jpeg'', type = ''image/jpeg'',
                                    parts = [Blob ''image/jpeg'' [2]]\<rparr>,
                          convertedUrl := Some (ObjectURL 2)\<rparr>))"
    using run
    by (simp add: convertImage_def sampleEnv_def holiday_def twoIssued_def Let_def
        createObjectURL_def elemAt_def shown_def)
  from dec ctx enc direct show ?thesis by simp
qed

subsection \<open>Outcomes of a conversion\<close>

text \<open>
  Claim C8. For every browser and every image \<open>convertImage\<close> resolves, with
  \<open>converting\<close> false; the error of the result is set exactly when the conversion failed
  (load error, no 2d context, \<open>toBlob\<close> threw or delivered \<open>null\<close>); and after a failure
  the file, the preview, the converted URL and the target format are the input's.
\<close>

theorem convertImage_total_atomic:
  "\<exists>es b' r. convertImage e b image' = (es, b', Resolved r)
      \<and> converting r = False
      \<and> (error r \<noteq> None \<longleftrightarrow> conversionFailed e image')
      \<and> (conversionFailed e image' \<longrightarrow>
            file r = file image' \<and> preview r = preview image'
            \<and> convertedUrl r = convertedUrl image' \<and> targetFormat r = targetFormat image')"
proof (cases e image' rule: convertImage_cases)
  case load_error
  then show ?thesis
    by (simp add: convertImage_load_error conversionFailed_def failure_def)
next
  case (no_context w h)
  then show ?thesis
    by (simp add: convertImage_no_context conversionFailed_def failure_def)
next
  case (throws w h t)
  then show ?thesis
    by (simp add: convertImage_throws conversionFailed_def failure_def)
next
  case (null w h)
  then show ?thesis
    by (simp add: convertImage_null conversionFailed_def failure_def)
next
  case (blob w h bl)
  then show ?thesis
    by (simp add: convertImage_blob conversionFailed_def success_def)
qed

theorem convertImage_total_atomic_witness:
  "conversionFailed sampleEnv broken
   \<and> (\<exists>es b' r. convertImage sampleEnv twoIssued broken = (es, b', Resolved r)
         \<and> converting r = False \<and> error r \<noteq> None
         \<and> file r = file broken \<and> preview r = preview broken
         \<and> convertedUrl r = convertedUrl broken \<and> targetFormat r = targetFormat broken)"
proof -
  have failed: "conversionFailed sampleEnv broken"
    by (simp add: conversionFailed_def sampleEnv_def broken_def)
  with convertImage_total_atomic [of sampleEnv twoIssued broken] show ?thesis
    by blast
qed

subsection \<open>The white background\<close>

text \<open>
  Claim C9. What \<open>convertImage\<close> paints: nothing when the image does not load or there
  is no context; otherwise the decoded image at the origin, preceded by a white rectangle
  over the whole canvas exactly when the target format is \<open>image/jpeg\<close> or
  \<open>image/bmp\<close>. For every other format the image is the only paint.
\<close>

theorem white_background_iff:
  "paints (fst (convertImage e b image')) =
     (case decodeImage e (preview image') of
        None \<Rightarrow> []
      | Some (w, h) \<Rightarrow>
          if \<not> context2d e w h then []
          else (if targetFormat image' = ''image/jpeg'' \<or> targetFormat image' = ''image/bmp''
                then [FillRect ''#FFFFFF'' 0 0 w h] else [])
               @ [DrawImage (preview image') 0 0])"
proof (cases e image' rule: convertImage_cases)
  case load_error
  then show ?thesis by (simp add: convertImage_load_error)
next
  case (no_context w h)
  then show ?thesis by (simp add: convertImage_no_context)
next
  case (throws w h t)
  then show ?thesis
    by (simp add: convertImage_throws paints_append paints_pipeline canvasFor_def)
next
  case (null w h)
  then show ?thesis
    by (simp add: convertImage_null paints_append paints_pipeline canvasFor_def)
next
  case (blob w h bl)
  then show ?thesis
    by (simp add: convertImage_blob paints_append paints_pipeline canvasFor_def)
qed

theorem white_background_iff_witness:
  "paints (fst (convertImage sampleEnv twoIssued holiday))
     = [FillRect ''#FFFFFF'' 0 0 4 3, DrawImage (ObjectURL 0) 0 0]
   \<and> paints (fst (convertImage sampleEnv twoIssued logo)) = [DrawImage (ObjectURL 1) 0 0]
   \<and> paints (fst (convertImage sampleEnv twoIssued broken)) = []"
  using white_background_iff [of sampleEnv twoIssued holiday]
    white_background_iff [of sampleEnv twoIssued logo]
    white_background_iff [of sampleEnv twoIssued broken]
  by (simp add: sampleEnv_def holiday_def logo_def broken_def)

subsection \<open>The name of the converted file\<close>

text \<open>
  Claim C10, as amended. After a successful conversion the file's name is the part of the
  old name before its first dot, a dot, and the part of the target format after its last
  slash. For \<open>image/svg+xml\<close> that extension is \<open>svg+xml\<close> (not \<open>xml\<close>: only the slash
  separates), for \<open>image/x-icon\<close> it is \<open>x-icon\<close>.
\<close>

theorem converted_file_name:
  assumes run: "convertImage e b image' = (es, b', Resolved r)"
      and ok: "error r = None"
  shows "name (file r) =
           takeWhile (\<lambda>c. c \<noteq> CHR ''.'') (name (file image')) @ ''.''
             @ rev (takeWhile (\<lambda>c. c \<noteq> CHR ''/'') (rev (targetFormat image')))
       \<and> (targetFormat image' = ''image/svg+xml'' \<longrightarrow>
            name (file r) = takeWhile (\<lambda>c. c \<noteq> CHR ''.'') (name (file image')) @ ''.svg+xml'')
       \<and> (targetFormat image' = ''image/x-icon'' \<longrightarrow>
            name (file r) = takeWhile (\<lambda>c. c \<noteq> CHR ''.'') (name (file image')) @ ''.x-icon'')"
proof -
  have general: "name (file r) =
           takeWhile (\<lambda>c. c \<noteq> CHR ''.'') (name (file image')) @ ''.''
             @ rev (takeWhile (\<lambda>c. c \<noteq> CHR ''/'') (rev (targetFormat image')))"
  proof (cases e image' rule: convertImage_cases)
    case load_error
    with run ok show ?thesis by (auto simp: convertImage_load_error failure_def)
  next
    case (no_context w h)
    with run ok show ?thesis by (auto simp: convertImage_no_context failure_def)
  next
    case (throws w h t)
    with run ok show ?thesis by (auto simp: convertImage_throws failure_def)
  next
    case (null w h)
    with run ok show ?thesis by (auto simp: convertImage_null failure_def)
  next
    case (blob w h bl)
    with run show ?thesis by (auto simp: convertImage_blob success_def)
  qed
  then show ?thesis by simp
qed

theorem converted_file_name_witness:
  "snd (snd (convertImage sampleEnv twoIssued logo)) = Resolved logoConverted
   \<and> error logoConverted = None
   \<and> targetFormat logo = ''image/svg+xml''
   \<and> name (file logoConverted) = ''logo.svg+xml''
   \<and> snd (snd (convertImage sampleEnv twoIssued favicon)) = Resolved faviconConverted
   \<and> error faviconConverted = None
   \<and> targetFormat favicon = ''image/x-icon''
   \<and> name (file favicon) = ''site.icon.v2.png''
   \<and> name (file faviconConverted) = ''site.x-icon''"
  using converted_file_name [OF logo_run] logo_run converted_file_name [OF favicon_run] favicon_run
  by (simp add: logo_def logoConverted_def favicon_def faviconConverted_def)

text \<open>
  The claim as it was stated promises \<open>logo.xml\<close> for \<open>logo.png\<close> converted to
  \<open>image/svg+xml\<close>; the program names the file \<open>logo.svg+xml\<close>.
\<close>

theorem svg_extension_counterexample:
  "snd (snd (convertImage sampleEnv twoIssued logo)) = Resolved logoConverted
   \<and> error logoConverted = None
   \<and> targetFormat logo = ''image/svg+xml''
   \<and> name (file logoConverted) \<noteq> takeWhile (\<lambda>c. c \<noteq> CHR ''.'') (name (file logo)) @ ''.xml''"
  using logo_run by (simp add: logo_def logoConverted_def)

subsection \<open>Releasing object URLs\<close>

lemma revoked_append: "revoked (xs @ ys) = revoked xs @ revoked ys"
  by (induction xs rule: revoked.induct) auto

lemma revoked_revokeUrls: "revoked (revokeUrls img) = heldUrls img"
  by (simp add: revokeUrls_def heldUrls_def split: option.splits)

lemma revoked_concat_revokeUrls:
  "revoked (concat (map revokeUrls images)) = concat (map heldUrls images)"
  by (induction images) (simp_all add: revoked_append revoked_revokeUrls)

lemma find_distinct_ids:
  "distinct (map imageId prev) \<Longrightarrow>
   filter (\<lambda>img. imageId img = i) prev =
     (case find (\<lambda>img. imageId img = i) prev of None \<Rightarrow> [] | Some img \<Rightarrow> [img])"
proof (induction prev)
  case Nil
  show ?case by simp
next
  case (Cons x xs)
  show ?case
  proof (cases "imageId x = i")
    case True
    with Cons.prems have "\<forall>y \<in> set xs. imageId y \<noteq> i" by (auto simp: image_iff)
    then have "filter (\<lambda>img. imageId img = i) xs = []" by (simp add: filter_empty_conv)
    with True show ?thesis by simp
  next
    case False
    with Cons show ?thesis by simp
  qed
qed

text \<open>
  Claim C3, as amended. \<open>removeImage\<close> (ids being distinct, as UUIDs are) and
  \<open>clearAllImages\<close> revoke, for each entry they remove, the preview URL and also the
  converted URL when there is one: one handle for an entry not yet converted, two for a
  converted one. \<open>removeImage\<close> keeps the entries of other ids, \<open>clearAllImages\<close> none.
\<close>

theorem revoke_on_remove:
  "(distinct (map imageId prev) \<longrightarrow>
      revoked (fst (removeImage i prev))
        = concat (map heldUrls (filter (\<lambda>img. imageId img = i) prev)))
   \<and> snd (removeImage i prev) = filter (\<lambda>img. imageId img \<noteq> i) prev
   \<and> revoked (fst (clearAllImages images)) = concat (map heldUrls images)
   \<and> snd (clearAllImages images) = []
   \<and> length (heldUrls img) = (if convertedUrl img = None then 1 else 2)"
proof -
  have "revoked (fst (removeImage i prev))
        = concat (map heldUrls (filter (\<lambda>img. imageId img = i) prev))"
    if "distinct (map imageId prev)"
    using find_distinct_ids [OF that, of i]
    by (simp add: removeImage_def Let_def revoked_append revoked_revokeUrls split: option.splits)
  moreover have "snd (removeImage i prev) = filter (\<lambda>img. imageId img \<noteq> i) prev"
    by (simp add: removeImage_def Let_def)
  moreover have "revoked (fst (clearAllImages images)) = concat (map heldUrls images)"
    by (simp add: clearAllImages_def revoked_append revoked_concat_revokeUrls)
  moreover have "snd (clearAllImages images) = []"
    by (simp add: clearAllImages_def)
  moreover have "length (heldUrls img) = (if convertedUrl img = None then 1 else 2)"
    by (simp add: heldUrls_def split: option.splits)
  ultimately show ?thesis by blast
qed

theorem revoke_on_remove_witness:
  "distinct (map imageId [holidayConverted, logo])
   \<and> revoked (fst (removeImage ''a'' [holidayConverted, logo])) = [ObjectURL 0, ObjectURL 2]
   \<and> snd (removeImage ''a'' [holidayConverted, logo]) = [logo]
   \<and> revoked (fst (clearAllImages [holidayConverted, logo])) = [ObjectURL 0, ObjectURL 2, ObjectURL 1]
   \<and> snd (clearAllImages [holidayConverted, logo]) = []"
proof -
  have d: "distinct (map imageId [holidayConverted, logo])"
    by (simp add: holidayConverted_def holiday_def logo_def)
  from revoke_on_remove [of "[holidayConverted, logo]" "''a''" "[holidayConverted, logo]" logo] d
  show ?thesis
    by (simp add: holidayConverted_def holiday_def logo_def heldUrls_def)
qed

text \<open>
  The claim as it was stated promises one revoked handle per removed image; removing
  one converted image revokes two.
\<close>

theorem one_handle_per_image_counterexample:
  "length (revoked (fst (removeImage ''a'' [holidayConverted]))) = 2
   \<and> length [holidayConverted] - length (snd (removeImage ''a'' [holidayConverted])) = 1
   \<and> length (revoked (fst (clearAllImages [holidayConverted]))) = 2
   \<and> length [holidayConverted] - length (snd (clearAllImages [holidayConverted])) = 1"
  by (simp add: removeImage_def clearAllImages_def revokeUrls_def holidayConverted_def
      holiday_def Let_def)

subsection \<open>Downloads\<close>

text \<open>
  Claim C6. \<open>downloadImage\<close> does nothing for an image without a converted URL, and
  \<open>downloadAllImages\<close> clicks one download anchor for each image of the list that has a
  converted URL, in list order, with that URL and the current name of the image's file.
\<close>

theorem download_gated:
  "(convertedUrl image' = None \<longrightarrow> downloadImage image' = [])
   \<and> clicks (downloadAllImages images) =
       map (\<lambda>img. Anchor (the (convertedUrl img)) (name (file img)))
         (filter (\<lambda>img. convertedUrl img \<noteq> None) images)"
proof -
  have "clicks (downloadAllImages images) =
       map (\<lambda>img. Anchor (the (convertedUrl img)) (name (file img)))
         (filter (\<lambda>img. convertedUrl img \<noteq> None) images)"
  proof (induction images)
    case Nil
    show ?case by (simp add: downloadAllImages_def)
  next
    case (Cons x xs)
    then show ?case
      by (cases "convertedUrl x") (simp_all add: downloadAllImages_def downloadImage_def Let_def)
  qed
  then show ?thesis by (simp add: downloadImage_def)
qed

theorem download_gated_witness:
  "convertedUrl logo = None \<and> downloadImage logo = []
   \<and> clicks (downloadAllImages [logo, holidayConverted, broken]) = [Anchor (ObjectURL 2) ''my.jpeg'']"
  using download_gated [of logo "[logo, holidayConverted, broken]"]
  by (simp add: logo_def holidayConverted_def holiday_def broken_def)

subsection \<open>Target formats\<close>

lemma encodings_append: "encodings (xs @ ys) = encodings xs @ encodings ys"
  by (induction xs rule: encodings.induct) auto

lemma encodings_map_Paint: "encodings (map Paint ps) = []"
  by (induction ps) auto

lemma encodings_pipeline: "encodings (pipeline image' w h) = [targetFormat image']"
  by (simp add: pipeline_def encodings_append encodings_map_Paint)

lemma encodings_convertImage:
  "encodings (fst (convertImage e b image')) =
     (case decodeImage e (preview image') of
        None \<Rightarrow> []
      | Some (w, h) \<Rightarrow> if context2d e w h then [targetFormat image'] else [])"
proof (cases e image' rule: convertImage_cases)
  case load_error
  then show ?thesis by (simp add: convertImage_load_error)
next
  case (no_context w h)
  then show ?thesis by (simp add: convertImage_no_context)
next
  case (throws w h t)
  then show ?thesis by (simp add: convertImage_throws encodings_append encodings_pipeline)
next
  case (null w h)
  then show ?thesis by (simp add: convertImage_null encodings_append encodings_pipeline)
next
  case (blob w h bl)
  then show ?thesis by (simp add: convertImage_blob encodings_append encodings_pipeline)
qed

lemma newFiles_entries:
  "\<exists>es b' entries. newFiles e g fs b = (es, b', entries)
      \<and> map file entries = fs \<and> map targetFormat entries = replicate (length entries) g"
proof (induction fs arbitrary: b)
  case Nil
  show ?case by simp
next
  case (Cons f fs)
  obtain i b1 where n: "nextUUID e b = (i, b1)" by (cases "nextUUID e b")
  obtain u b2 where c: "createObjectURL b1 = (u, b2)" by (cases "createObjectURL b1")
  from Cons.IH [of b2] obtain es b3 entries where
    r: "newFiles e g fs b2 = (es, b3, entries)" "map file entries = fs"
       "map targetFormat entries = replicate (length entries) g"
    by blast
  with n c show ?case by simp
qed

lemma len2: "map f entries = [a, b] \<Longrightarrow> length entries = Suc (Suc 0)"
proof -
  assume "map f entries = [a, b]"
  then have "length (map f entries) = length [a, b]" by (rule arg_cong)
  then show ?thesis by (simp only: length_map list.size)
qed

text \<open>
  Claim C4. \<open>updateImageTargetFormat\<close> gives the new format to the entries of that id and
  leaves the format of every other entry as it was; \<open>applyGlobalFormatToAll\<close> gives the
  global format to every entry; files added by the file input or by a drop (image files
  only) are appended with the global format of that moment; and whenever \<open>convertImage\<close>
  calls \<open>toBlob\<close>, it asks for the image's own target format.
\<close>

theorem target_format_choice:
  "map targetFormat (updateImageTargetFormat i f prev)
     = map (\<lambda>img. if imageId img = i then f else targetFormat img) prev
   \<and> map imageId (updateImageTargetFormat i f prev) = map imageId prev
   \<and> map targetFormat (applyGlobalFormatToAll g prev) = replicate (length prev) g
   \<and> (\<exists>entries. snd (snd (handleFileSelect e g (Some fs) b prev)) = prev @ entries
          \<and> map file entries = fs
          \<and> map targetFormat entries = replicate (length entries) g)
   \<and> (\<exists>entries. snd (snd (handleDrop e g (Some fs) b prev)) = prev @ entries
          \<and> map file entries = filter (\<lambda>f. startsWith (type f) ''image/'') fs
          \<and> map targetFormat entries = replicate (length entries) g)
   \<and> encodings (fst (convertImage e b image')) =
       (case decodeImage e (preview image') of
          None \<Rightarrow> []
        | Some (w, h) \<Rightarrow> if context2d e w h then [targetFormat image'] else [])"
proof -
  have a: "map targetFormat (updateImageTargetFormat i f prev)
     = map (\<lambda>img. if imageId img = i then f else targetFormat img) prev"
    by (simp add: updateImageTargetFormat_def)
  have b: "map imageId (updateImageTargetFormat i f prev) = map imageId prev"
    by (simp add: updateImageTargetFormat_def)
  have c: "map targetFormat (applyGlobalFormatToAll g prev) = replicate (length prev) g"
    by (simp add: applyGlobalFormatToAll_def map_replicate_const comp_def)
  have d: "\<exists>entries. snd (snd (handleFileSelect e g (Some fs) b prev)) = prev @ entries
          \<and> map file entries = fs
          \<and> map targetFormat entries = replicate (length entries) g"
  proof (cases "fs = []")
    case True
    then show ?thesis by (simp add: handleFileSelect_def)
  next
    case False
    from newFiles_entries [of e g fs b] obtain es b' entries where
      "newFiles e g fs b = (es, b', entries)" "map file entries = fs"
      "map targetFormat entries = replicate (length entries) g"
      by blast
    with False show ?thesis by (simp add: handleFileSelect_def)
  qed
  have e: "\<exists>entries. snd (snd (handleDrop e g (Some fs) b prev)) = prev @ entries
          \<and> map file entries = filter (\<lambda>f. startsWith (type f) ''image/'') fs
          \<and> map targetFormat entries = replicate (length entries) g"
  proof (cases "filter (\<lambda>f. startsWith (type f) ''image/'') fs = []")
    case True
    then show ?thesis by (simp add: handleDrop_def Let_def)
  next
    case False
    then have ne: "fs \<noteq> []" by auto
    from newFiles_entries [of e g "filter (\<lambda>f. startsWith (type f) ''image/'') fs" b]
    obtain es b' entries where
      "newFiles e g (filter (\<lambda>f. startsWith (type f) ''image/'') fs) b = (es, b', entries)"
      "map file entries = filter (\<lambda>f. startsWith (type f) ''image/'') fs"
      "map targetFormat entries = replicate (length entries) g"
      by blast
    with False ne show ?thesis by (simp add: handleDrop_def Let_def)
  qed
  from a b c d e encodings_convertImage [of e b image'] show ?thesis by blast
qed

theorem target_format_choice_witness:
  "map targetFormat (updateImageTargetFormat ''b'' ''image/webp'' [holiday, logo])
     = [''image/jpeg'', ''image/webp'']
   \<and> map targetFormat (applyGlobalFormatToAll ''image/gif'' [holiday, logo])
     = [''image/gif'', ''image/gif'']
   \<and> map targetFormat
        (snd (snd (handleFileSelect sampleEnv ''image/gif'' (Some [file holiday, file logo])
                     twoIssued [holiday, logo])))
     = [''image/jpeg'', ''image/svg+xml'', ''image/gif'', ''image/gif'']
   \<and> encodings (fst (convertImage sampleEnv twoIssued logo)) = [''image/svg+xml'']"
proof -
  note facts = target_format_choice [of "''b''" "''image/webp''" "[holiday, logo]" "''image/gif''"
      sampleEnv "[file holiday, file logo]" twoIssued logo]
  note upd = facts [THEN conjunct1]
  note glob = facts [THEN conjunct2, THEN conjunct2, THEN conjunct1]
  note sel = facts [THEN conjunct2, THEN conjunct2, THEN conjunct2, THEN conjunct1]
  note enc = facts [THEN conjunct2, THEN conjunct2, THEN conjunct2, THEN conjunct2, THEN conjunct2]
  from sel obtain entries where
    added: "snd (snd (handleFileSelect sampleEnv ''image/gif'' (Some [file holiday, file logo])
                        twoIssued [holiday, logo])) = [holiday, logo] @ entries"
    and files: "map file entries = [file holiday, file logo]"
    and formats: "map targetFormat entries = replicate (length entries) ''image/gif''"
    by (elim exE conjE)
  from files have "length entries = Suc (Suc 0)" by (rule len2)
  with formats have "map targetFormat entries = [''image/gif'', ''image/gif'']"
    by (simp only: replicate.simps)
  with added have third: "map targetFormat
        (snd (snd (handleFileSelect sampleEnv ''image/gif'' (Some [file holiday, file logo])
                     twoIssued [holiday, logo])))
     = [''image/jpeg'', ''image/svg+xml'', ''image/gif'', ''image/gif'']"
    by (simp add: holiday_def logo_def)
  from upd have first: "map targetFormat (updateImageTargetFormat ''b'' ''image/webp'' [holiday, logo])
     = [''image/jpeg'', ''image/webp'']"
    by (simp add: holiday_def logo_def)
  from glob have second: "map targetFormat (applyGlobalFormatToAll ''image/gif'' [holiday, logo])
     = [''image/gif'', ''image/gif'']"
    by (simp add: numeral_2_eq_2)
  from enc have fourth: "encodings (fst (convertImage sampleEnv twoIssued logo)) = [''image/svg+xml'']"
    by (simp add: sampleEnv_def logo_def)
  from first second third fourth show ?thesis by (intro conjI)
qed

subsection \<open>The conversion loop\<close>

lemma conversions_append: "conversions (xs @ ys) = conversions xs @ conversions ys"
  by (induction xs rule: conversions.induct) auto

lemma resolutions_append: "resolutions (xs @ ys) = resolutions xs @ resolutions ys"
  by (induction xs rule: resolutions.induct) auto

lemma conversions_calls: "list_all browserCall xs \<Longrightarrow> conversions xs = []"
  by (induction xs rule: conversions.induct) auto

lemma resolutions_calls: "list_all browserCall xs \<Longrightarrow> resolutions xs = []"
  by (induction xs rule: resolutions.induct) auto

lemma sequential_calls:
  "list_all browserCall xs \<Longrightarrow> ph = Idle \<or> ph = InFlight \<Longrightarrow>
   sequential ph cur (xs @ es) = sequential ph cur es"
proof (induction xs)
  case Nil
  show ?case by simp
next
  case (Cons x xs)
  then show ?case by (cases x) auto
qed

lemma calls_pipeline: "pipeline image' w h = NewPromise image' # tl (pipeline image' w h)"
  "list_all browserCall (tl (pipeline image' w h))"
  by (simp_all add: pipeline_def list_all_iff)

text \<open>Every conversion is one promise: created, some browser calls, resolved.\<close>

lemma convertImage_shape:
  "\<exists>calls b' r. convertImage e b image' = (NewPromise image' # calls @ [Resolve r], b', Resolved r)
      \<and> list_all browserCall calls \<and> imageId r = imageId image'"
proof (cases e image' rule: convertImage_cases)
  case load_error
  then show ?thesis
    by (simp add: convertImage_load_error failure_def)
next
  case (no_context w h)
  then show ?thesis
    by (simp add: convertImage_no_context failure_def)
next
  case (throws w h t)
  have "convertImage e b image' =
      (NewPromise image' # tl (pipeline image' w h)
         @ [Resolve (failure image' (''Conversion failed: '' @ message t))],
       b, Resolved (failure image' (''Conversion failed: '' @ message t)))"
    using convertImage_throws [OF throws, of b] calls_pipeline(1) [of image' w h] by simp
  then show ?thesis using calls_pipeline(2) [of image' w h]
    by (simp add: failure_def)
next
  case (null w h)
  have "convertImage e b image' =
      (NewPromise image' # tl (pipeline image' w h)
         @ [Resolve (failure image' ''Conversion failed'')],
       b, Resolved (failure image' ''Conversion failed''))"
    using convertImage_null [OF null, of b] calls_pipeline(1) [of image' w h] by simp
  then show ?thesis using calls_pipeline(2) [of image' w h]
    by (simp add: failure_def)
next
  case (blob w h bl)
  have "convertImage e b image' =
      (NewPromise image' # (tl (pipeline image' w h)
         @ [CreateObjectURL (FromBlob bl) (ObjectURL (urlCount b))])
         @ [Resolve (success image' bl (ObjectURL (urlCount b)))],
       b\<lparr>urlCount := Suc (urlCount b)\<rparr>,
       Resolved (success image' bl (ObjectURL (urlCount b))))"
    using convertImage_blob [OF blob, of b] calls_pipeline(1) [of image' w h] by simp
  moreover have "list_all browserCall (tl (pipeline image' w h)
         @ [CreateObjectURL (FromBlob bl) (ObjectURL (urlCount b))])"
    using calls_pipeline(2) [of image' w h] by simp
  moreover have "imageId (success image' bl (ObjectURL (urlCount b))) = imageId image'"
    by (simp add: success_def)
  ultimately show ?thesis by blast
qed

lemma convertEach_trace:
  "\<exists>es b' prev'. convertEach e images b prev = (es, b', prev', Resolved ())
      \<and> conversions es = images
      \<and> map imageId (resolutions es) = map imageId images
      \<and> (\<forall>rest. sequential Idle prev (es @ rest) = sequential Idle prev' rest)"
proof (induction images arbitrary: b prev)
  case Nil
  show ?case by simp
next
  case (Cons image' rest)
  from convertImage_shape [of e b image'] obtain calls b1 r where
    one: "convertImage e b image' = (NewPromise image' # calls @ [Resolve r], b1, Resolved r)"
    and quiet: "list_all browserCall calls" and same: "imageId r = imageId image'"
    by blast
  define prev1 where "prev1 = map (\<lambda>img. if imageId img = imageId r then r else img) prev"
  from Cons.IH [of b1 prev1] obtain es b2 prev2 where
    more: "convertEach e rest b1 prev1 = (es, b2, prev2, Resolved ())"
    and conv: "conversions es = rest"
    and res: "map imageId (resolutions es) = map imageId rest"
    and seq: "\<forall>tail. sequential Idle prev1 (es @ tail) = sequential Idle prev2 tail"
    by blast
  have run: "convertEach e (image' # rest) b prev =
      ((NewPromise image' # calls @ [Resolve r]) @ [SetImages prev1] @ es, b2, prev2, Resolved ())"
    using one more by (simp add: prev1_def Let_def)
  have c: "conversions ((NewPromise image' # calls @ [Resolve r]) @ [SetImages prev1] @ es)
             = image' # rest"
    using quiet conv by (simp add: conversions_append conversions_calls)
  have d: "map imageId (resolutions ((NewPromise image' # calls @ [Resolve r]) @ [SetImages prev1] @ es))
             = map imageId (image' # rest)"
    using quiet res same by (simp add: resolutions_append resolutions_calls)
  have s: "sequential Idle prev (((NewPromise image' # calls @ [Resolve r]) @ [SetImages prev1] @ es) @ tail)
            = sequential Idle prev2 tail" for tail
  proof -
    have "sequential Idle prev (((NewPromise image' # calls @ [Resolve r]) @ [SetImages prev1] @ es) @ tail)
          = sequential InFlight prev (calls @ (Resolve r # SetImages prev1 # es @ tail))"
      by simp
    also have "\<dots> = sequential InFlight prev (Resolve r # SetImages prev1 # es @ tail)"
      using quiet by (simp add: sequential_calls)
    also have "\<dots> = sequential Idle prev1 (es @ tail)"
      by (simp add: prev1_def)
    also have "\<dots> = sequential Idle prev2 tail"
      using seq by simp
    finally show ?thesis .
  qed
  from run c d s show ?case by metis
qed

text \<open>The predicate does reject traces: overlapping promises and a delayed update both fail it.\<close>

lemma sequential_rejects_overlap:
  "\<not> sequential Idle [holiday, logo]
       [NewPromise holiday, NewPromise logo, Resolve holidayConverted, Resolve logoConverted]"
  by simp

lemma sequential_rejects_late_update:
  "\<not> sequential Idle [holiday, logo]
       [NewPromise holiday, Resolve holidayConverted, NewPromise logo,
        SetImages [holidayConverted, logo], Resolve logoConverted,
        SetImages [holidayConverted, logoConverted]]"
  by simp

text \<open>
  Claim C2. The trace of one run of \<open>convertAllImages\<close> is sequential: no promise is
  created while another is pending, each resolution is followed at once by the update of
  the list with that result, and the promises are created, and resolved, for the images
  of the list in list order.
\<close>

theorem convertAllImages_sequential:
  "sequential Idle prev (fst (convertAllImages e images b prev))
   \<and> conversions (fst (convertAllImages e images b prev)) = images
   \<and> map imageId (resolutions (fst (convertAllImages e images b prev))) = map imageId images"
proof (cases "images = []")
  case True
  then show ?thesis by (simp add: convertAllImages_def)
next
  case False
  define prev0 where "prev0 = map (\<lambda>img. img\<lparr>converting := True, error := None\<rparr>) prev"
  from convertEach_trace [of e images b prev0] obtain es b' prev' where
    run: "convertEach e images b prev0 = (es, b', prev', Resolved ())"
    and conv: "conversions es = images"
    and res: "map imageId (resolutions es) = map imageId images"
    and seq: "\<forall>rest. sequential Idle prev0 (es @ rest) = sequential Idle prev' rest"
    by blast
  from False run have all: "fst (convertAllImages e images b prev)
      = [SetIsConverting True, SetImages prev0] @ es @ [SetIsConverting False]"
    by (simp add: convertAllImages_def prev0_def Let_def)
  have "sequential Idle prev ([SetIsConverting True, SetImages prev0] @ es @ [SetIsConverting False])
        = sequential Idle prev0 (es @ [SetIsConverting False])"
    by simp
  also have "\<dots> = sequential Idle prev' [SetIsConverting False]"
    using seq by simp
  finally have "sequential Idle prev ([SetIsConverting True, SetImages prev0] @ es @ [SetIsConverting False])"
    by simp
  with all conv res show ?thesis
    by (simp add: conversions_append resolutions_append)
qed

theorem convertAllImages_sequential_witness:
  "sequential Idle [holiday, logo]
     (fst (convertAllImages sampleEnv [holiday, logo] twoIssued [holiday, logo]))
   \<and> conversions (fst (convertAllImages sampleEnv [holiday, logo] twoIssued [holiday, logo]))
       = [holiday, logo]
   \<and> map imageId (resolutions (fst (convertAllImages sampleEnv [holiday, logo] twoIssued [holiday, logo])))
       = [''a'', ''b'']"
  using convertAllImages_sequential [of "[holiday, logo]" sampleEnv "[holiday, logo]" twoIssued]
  by (simp add: holiday_def logo_def)

lemma created_append: "created (xs @ ys) = created xs @ created ys"
  by (induction xs rule: created.induct) auto

lemma created_map_Paint: "created (map Paint ps) = []"
  by (induction ps) auto

lemma created_pipeline: "created (pipeline image' w h) = []"
  by (simp add: pipeline_def created_append created_map_Paint)

lemma resolutions_map_Paint: "resolutions (map Paint ps) = []"
  by (induction ps) auto

lemma resolutions_pipeline: "resolutions (pipeline image' w h) = []"
  by (simp add: pipeline_def resolutions_append resolutions_map_Paint)

text \<open>What one conversion leaves in the trace, whatever the image held before.\<close>

lemma convertImage_observed:
  "\<exists>es b' r. convertImage e b image' = (es, b', Resolved r)
     \<and> conversions es = [image']
     \<and> resolutions es = [r]
     \<and> imageId r = imageId image'
     \<and> paints es =
         (case decodeImage e (preview image') of
            None \<Rightarrow> []
          | Some (w, h) \<Rightarrow> if context2d e w h then painted (canvasFor image' w h) else [])
     \<and> encodings es =
         (case decodeImage e (preview image') of
            None \<Rightarrow> []
          | Some (w, h) \<Rightarrow> if context2d e w h then [targetFormat image'] else [])
     \<and> (error r \<noteq> None) = conversionFailed e image'
     \<and> created es = (if conversionFailed e image' then [] else [ObjectURL (urlCount b)])
     \<and> convertedUrl r = (if conversionFailed e image' then convertedUrl image'
                          else Some (ObjectURL (urlCount b)))
     \<and> urlCount b' = (if conversionFailed e image' then urlCount b else Suc (urlCount b))"
proof (cases e image' rule: convertImage_cases)
  case load_error
  then show ?thesis
    by (simp add: convertImage_load_error conversionFailed_def failure_def)
next
  case (no_context w h)
  then show ?thesis
    by (simp add: convertImage_no_context conversionFailed_def failure_def)
next
  case (throws w h t)
  have c: "conversions (pipeline image' w h) = [image']"
    using calls_pipeline [of image' w h] by (metis conversions.simps(2) conversions_calls)
  from throws c show ?thesis
    by (simp add: convertImage_throws conversionFailed_def failure_def conversions_append
        resolutions_append resolutions_pipeline paints_append paints_pipeline
        encodings_append encodings_pipeline created_append created_pipeline)
next
  case (null w h)
  have c: "conversions (pipeline image' w h) = [image']"
    using calls_pipeline [of image' w h] by (metis conversions.simps(2) conversions_calls)
  from null c show ?thesis
    by (simp add: convertImage_null conversionFailed_def failure_def conversions_append
        resolutions_append resolutions_pipeline paints_append paints_pipeline
        encodings_append encodings_pipeline created_append created_pipeline)
next
  case (blob w h bl)
  have c: "conversions (pipeline image' w h) = [image']"
    using calls_pipeline [of image' w h] by (metis conversions.simps(2) conversions_calls)
  from blob c show ?thesis
    by (simp add: convertImage_blob conversionFailed_def success_def conversions_append
        resolutions_append resolutions_pipeline paints_append paints_pipeline
        encodings_append encodings_pipeline created_append created_pipeline)
qed

lemma convertEach_observed:
  "\<exists>es b' prev'. convertEach e images b prev = (es, b', prev', Resolved ())
     \<and> conversions es = images
     \<and> paints es = concat (map (\<lambda>img.
           case decodeImage e (preview img) of
             None \<Rightarrow> []
           | Some (w, h) \<Rightarrow> if context2d e w h then painted (canvasFor img w h) else []) images)
     \<and> encodings es = concat (map (\<lambda>img.
           case decodeImage e (preview img) of
             None \<Rightarrow> []
           | Some (w, h) \<Rightarrow> if context2d e w h then [targetFormat img] else []) images)
     \<and> map (\<lambda>r. error r \<noteq> None) (resolutions es) = map (conversionFailed e) images
     \<and> urlCount b' = urlCount b + length (filter (\<lambda>img. \<not> conversionFailed e img) images)
     \<and> created es = map ObjectURL [urlCount b ..< urlCount b']
     \<and> map convertedUrl (filter (\<lambda>r. error r = None) (resolutions es)) = map Some (created es)
     \<and> list_all2 (\<lambda>img r. \<exists>bk. snd (snd (convertImage e bk img)) = Resolved r) images (resolutions es)"
proof (induction images arbitrary: b prev)
  case Nil
  show ?case by simp
next
  case (Cons image' rest)
  from convertImage_observed [of e b image'] obtain es1 b1 r where
    one: "convertImage e b image' = (es1, b1, Resolved r)"
    and c1: "conversions es1 = [image']"
    and r1: "resolutions es1 = [r]"
    and p1: "paints es1 =
         (case decodeImage e (preview image') of
            None \<Rightarrow> []
          | Some (w, h) \<Rightarrow> if context2d e w h then painted (canvasFor image' w h) else [])"
    and e1: "encodings es1 =
         (case decodeImage e (preview image') of
            None \<Rightarrow> []
          | Some (w, h) \<Rightarrow> if context2d e w h then [targetFormat image'] else [])"
    and f1: "(error r \<noteq> None) = conversionFailed e image'"
    and u1: "created es1 = (if conversionFailed e image' then [] else [ObjectURL (urlCount b)])"
    and v1: "convertedUrl r = (if conversionFailed e image' then convertedUrl image'
                          else Some (ObjectURL (urlCount b)))"
    and n1: "urlCount b1 = (if conversionFailed e image' then urlCount b else Suc (urlCount b))"
    by blast
  define prev1 where "prev1 = map (\<lambda>img. if imageId img = imageId r then r else img) prev"
  from Cons.IH [of b1 prev1] obtain es2 b2 prev2 where
    more: "convertEach e rest b1 prev1 = (es2, b2, prev2, Resolved ())"
    and c2: "conversions es2 = rest"
    and p2: "paints es2 = concat (map (\<lambda>img.
           case decodeImage e (preview img) of
             None \<Rightarrow> []
           | Some (w, h) \<Rightarrow> if context2d e w h then painted (canvasFor img w h) else []) rest)"
    and e2: "encodings es2 = concat (map (\<lambda>img.
           case decodeImage e (preview img) of
             None \<Rightarrow> []
           | Some (w, h) \<Rightarrow> if context2d e w h then [targetFormat img] else []) rest)"
    and f2: "map (\<lambda>r. error r \<noteq> None) (resolutions es2) = map (conversionFailed e) rest"
    and n2: "urlCount b2 = urlCount b1 + length (filter (\<lambda>img. \<not> conversionFailed e img) rest)"
    and u2: "created es2 = map ObjectURL [urlCount b1 ..< urlCount b2]"
    and v2: "map convertedUrl (filter (\<lambda>r. error r = None) (resolutions es2)) = map Some (created es2)"
    and l2: "list_all2 (\<lambda>img r. \<exists>bk. snd (snd (convertImage e bk img)) = Resolved r) rest (resolutions es2)"
    by blast
  let ?es = "es1 @ [SetImages prev1] @ es2"
  have run: "convertEach e (image' # rest) b prev = (?es, b2, prev2, Resolved ())"
    using one more by (simp add: prev1_def Let_def)
  have c: "conversions ?es = image' # rest"
    using c1 c2 by (simp add: conversions_append)
  have p: "paints ?es = concat (map (\<lambda>img.
           case decodeImage e (preview img) of
             None \<Rightarrow> []
           | Some (w, h) \<Rightarrow> if context2d e w h then painted (canvasFor img w h) else [])
           (image' # rest))"
    using p1 p2 by (simp add: paints_append)
  have en: "encodings ?es = concat (map (\<lambda>img.
           case decodeImage e (preview img) of
             None \<Rightarrow> []
           | Some (w, h) \<Rightarrow> if context2d e w h then [targetFormat img] else [])
           (image' # rest))"
    using e1 e2 by (simp add: encodings_append)
  have rs: "resolutions ?es = r # resolutions es2"
    using r1 by (simp add: resolutions_append)
  have f: "map (\<lambda>r. error r \<noteq> None) (resolutions ?es) = map (conversionFailed e) (image' # rest)"
    using rs f1 f2 by simp
  have n: "urlCount b2 = urlCount b
             + length (filter (\<lambda>img. \<not> conversionFailed e img) (image' # rest))"
    using n1 n2 by simp
  have cr: "created ?es = created es1 @ created es2"
    by (simp add: created_append)
  have u: "created ?es = map ObjectURL [urlCount b ..< urlCount b2]"
  proof (cases "conversionFailed e image'")
    case True
    with cr u1 u2 n1 show ?thesis by simp
  next
    case False
    with n1 n2 have "urlCount b < urlCount b2" "urlCount b1 = Suc (urlCount b)" by simp_all
    then have "[urlCount b ..< urlCount b2] = urlCount b # [urlCount b1 ..< urlCount b2]"
      by (simp add: upt_conv_Cons)
    with False cr u1 u2 show ?thesis by simp
  qed
  have v: "map convertedUrl (filter (\<lambda>r. error r = None) (resolutions ?es)) = map Some (created ?es)"
  proof (cases "conversionFailed e image'")
    case True
    with f1 have "error r \<noteq> None" by simp
    with rs cr u1 v2 True show ?thesis by simp
  next
    case False
    with f1 have "error r = None" by simp
    with rs cr u1 v1 v2 False show ?thesis by simp
  qed
  have l: "list_all2 (\<lambda>img r. \<exists>bk. snd (snd (convertImage e bk img)) = Resolved r) (image' # rest) (resolutions ?es)"
  proof -
    from one have "snd (snd (convertImage e b image')) = Resolved r" by simp
    then have "\<exists>bk. snd (snd (convertImage e bk image')) = Resolved r" by (rule exI)
    with l2 rs show ?thesis by simp
  qed
  from run c p en f n u v l show ?case by blast
qed

lemma holidayConverted_converts: "\<not> conversionFailed sampleEnv holidayConverted"
  by (simp add: conversionFailed_def sampleEnv_def holidayConverted_def holiday_def encoded_def)

lemma brokenFailed_fails: "conversionFailed sampleEnv brokenFailed"
  by (simp add: conversionFailed_def sampleEnv_def brokenFailed_def broken_def)

text \<open>
  Claim C5. On an empty list \<open>convertAllImages\<close> does nothing. On any other list it
  first sets the converting flag and clears the error of every entry, then hands each
  image of the list to \<open>convertImage\<close> exactly once, in order, and ends by resetting the
  flag of the component. Each of these conversions is carried out in full, whatever the
  image's converted URL or error was before: the run paints every image that loads and
  has a context, asks \<open>toBlob\<close> for its target format, and resolves with a record whose
  error is set exactly when this conversion failed; every conversion that succeeds
  creates one object URL that was not issued before the run, and that URL, not an
  earlier one, is the converted URL of its result. Every resolved record is what
  \<open>convertImage\<close> returns for that image.
\<close>

theorem convertAllImages_no_cache:
  "(images = [] \<longrightarrow> convertAllImages e images b prev = ([], b, prev, Resolved ()))
   \<and> (images \<noteq> [] \<longrightarrow>
        (\<exists>rest b' prev'. convertAllImages e images b prev =
             (SetIsConverting True
                # SetImages (map (\<lambda>img. img\<lparr>converting := True, error := None\<rparr>) prev)
                # rest @ [SetIsConverting False],
              b', prev', Resolved ())
           \<and> conversions rest = images
           \<and> paints rest = concat (map (\<lambda>img.
                 case decodeImage e (preview img) of
                   None \<Rightarrow> []
                 | Some (w, h) \<Rightarrow>
                     if context2d e w h then painted (canvasFor img w h) else []) images)
           \<and> encodings rest = concat (map (\<lambda>img.
                 case decodeImage e (preview img) of
                   None \<Rightarrow> []
                 | Some (w, h) \<Rightarrow> if context2d e w h then [targetFormat img] else []) images)
           \<and> map (\<lambda>r. error r \<noteq> None) (resolutions rest) = map (conversionFailed e) images
           \<and> urlCount b' = urlCount b + length (filter (\<lambda>img. \<not> conversionFailed e img) images)
           \<and> created rest = map ObjectURL [urlCount b ..< urlCount b']
           \<and> map convertedUrl (filter (\<lambda>r. error r = None) (resolutions rest))
               = map Some (created rest)
           \<and> list_all2 (\<lambda>img r. \<exists>bk. snd (snd (convertImage e bk img)) = Resolved r) images (resolutions rest)))"
proof (cases "images = []")
  case True
  then show ?thesis by (simp add: convertAllImages_def)
next
  case False
  from convertEach_observed [of e images b "map (\<lambda>img. img\<lparr>converting := True, error := None\<rparr>) prev"]
  obtain es b' prev' where
    run: "convertEach e images b (map (\<lambda>img. img\<lparr>converting := True, error := None\<rparr>) prev)
            = (es, b', prev', Resolved ())"
    and obs: "conversions es = images
     \<and> paints es = concat (map (\<lambda>img.
           case decodeImage e (preview img) of
             None \<Rightarrow> []
           | Some (w, h) \<Rightarrow> if context2d e w h then painted (canvasFor img w h) else []) images)
     \<and> encodings es = concat (map (\<lambda>img.
           case decodeImage e (preview img) of
             None \<Rightarrow> []
           | Some (w, h) \<Rightarrow> if context2d e w h then [targetFormat img] else []) images)
     \<and> map (\<lambda>r. error r \<noteq> None) (resolutions es) = map (conversionFailed e) images
     \<and> urlCount b' = urlCount b + length (filter (\<lambda>img. \<not> conversionFailed e img) images)
     \<and> created es = map ObjectURL [urlCount b ..< urlCount b']
     \<and> map convertedUrl (filter (\<lambda>r. error r = None) (resolutions es)) = map Some (created es)
     \<and> list_all2 (\<lambda>img r. \<exists>bk. snd (snd (convertImage e bk img)) = Resolved r) images (resolutions es)"
    by blast
  from False run have "convertAllImages e images b prev =
             (SetIsConverting True
                # SetImages (map (\<lambda>img. img\<lparr>converting := True, error := None\<rparr>) prev)
                # es @ [SetIsConverting False],
              b', prev', Resolved ())"
    by (simp add: convertAllImages_def Let_def)
  with obs False show ?thesis by blast
qed

theorem convertAllImages_no_cache_witness:
  "convertAllImages sampleEnv [] threeIssued [] = ([], threeIssued, [], Resolved ())
   \<and> [holidayConverted, brokenFailed] \<noteq> []
   \<and> convertedUrl holidayConverted = Some (ObjectURL 2)
   \<and> error brokenFailed = Some ''Failed to load image''
   \<and> (\<exists>rest b' prev'.
          convertAllImages sampleEnv [holidayConverted, brokenFailed] threeIssued
            [holidayConverted, brokenFailed] =
            (SetIsConverting True
               # SetImages [holidayConverted\<lparr>converting := True\<rparr>,
                            broken\<lparr>converting := True\<rparr>]
               # rest @ [SetIsConverting False],
             b', prev', Resolved ())
          \<and> conversions rest = [holidayConverted, brokenFailed]
          \<and> paints rest = [FillRect ''#FFFFFF'' 0 0 4 3, DrawImage (ObjectURL 0) 0 0]
          \<and> encodings rest = [''image/jpeg'']
          \<and> map (\<lambda>r. error r \<noteq> None) (resolutions rest) = [False, True]
          \<and> urlCount b' = 4
          \<and> created rest = [ObjectURL 3]
          \<and> map convertedUrl (filter (\<lambda>r. error r = None) (resolutions rest))
              = [Some (ObjectURL 3)])"
proof -
  have empty: "convertAllImages sampleEnv [] threeIssued [] = ([], threeIssued, [], Resolved ())"
    using convertAllImages_no_cache [of "[]" sampleEnv threeIssued "[]"] by simp
  have ne: "[holidayConverted, brokenFailed] \<noteq> []" by simp
  note full = convertAllImages_no_cache [of "[holidayConverted, brokenFailed]" sampleEnv threeIssued
      "[holidayConverted, brokenFailed]", THEN conjunct2, THEN mp, OF ne]
  have marked: "map (\<lambda>img. img\<lparr>converting := True, error := None\<rparr>) [holidayConverted, brokenFailed]
      = [holidayConverted\<lparr>converting := True\<rparr>, broken\<lparr>converting := True\<rparr>]"
    by (simp add: holidayConverted_def holiday_def brokenFailed_def broken_def)
  have ps: "concat (map (\<lambda>img.
                 case decodeImage sampleEnv (preview img) of
                   None \<Rightarrow> []
                 | Some (w, h) \<Rightarrow>
                     if context2d sampleEnv w h then painted (canvasFor img w h) else [])
              [holidayConverted, brokenFailed])
            = [FillRect ''#FFFFFF'' 0 0 4 3, DrawImage (ObjectURL 0) 0 0]"
    by (simp add: sampleEnv_def holidayConverted_def holiday_def brokenFailed_def broken_def
        canvasFor_def)
  have en: "concat (map (\<lambda>img.
                 case decodeImage sampleEnv (preview img) of
                   None \<Rightarrow> []
                 | Some (w, h) \<Rightarrow> if context2d sampleEnv w h then [targetFormat img] else [])
              [holidayConverted, brokenFailed])
            = [''image/jpeg'']"
    by (simp add: sampleEnv_def holidayConverted_def holiday_def brokenFailed_def broken_def)
  have fl: "map (conversionFailed sampleEnv) [holidayConverted, brokenFailed] = [False, True]"
    using holidayConverted_converts brokenFailed_fails by simp
  have cnt: "urlCount threeIssued
      + length (filter (\<lambda>img. \<not> conversionFailed sampleEnv img) [holidayConverted, brokenFailed]) = 4"
    using holidayConverted_converts brokenFailed_fails by (simp add: threeIssued_def)
  have three: "urlCount threeIssued = 3" by (simp add: threeIssued_def)
  have span: "map ObjectURL [3 ..< 4] = [ObjectURL 3]" by (simp add: upt_rec)
  have old: "convertedUrl holidayConverted = Some (ObjectURL 2)"
    by (simp add: holidayConverted_def)
  have err: "error brokenFailed = Some ''Failed to load image''"
    by (simp add: brokenFailed_def)
  from full obtain rest b' prev' where
    run: "convertAllImages sampleEnv [holidayConverted, brokenFailed] threeIssued
            [holidayConverted, brokenFailed] =
            (SetIsConverting True
               # SetImages (map (\<lambda>img. img\<lparr>converting := True, error := None\<rparr>)
                              [holidayConverted, brokenFailed])
               # rest @ [SetIsConverting False],
             b', prev', Resolved ())"
    and c: "conversions rest = [holidayConverted, brokenFailed]"
    and p: "paints rest = concat (map (\<lambda>img.
                 case decodeImage sampleEnv (preview img) of
                   None \<Rightarrow> []
                 | Some (w, h) \<Rightarrow>
                     if context2d sampleEnv w h then painted (canvasFor img w h) else [])
              [holidayConverted, brokenFailed])"
    and q: "encodings rest = concat (map (\<lambda>img.
                 case decodeImage sampleEnv (preview img) of
                   None \<Rightarrow> []
                 | Some (w, h) \<Rightarrow> if context2d sampleEnv w h then [targetFormat img] else [])
              [holidayConverted, brokenFailed])"
    and f: "map (\<lambda>r. error r \<noteq> None) (resolutions rest)
              = map (conversionFailed sampleEnv) [holidayConverted, brokenFailed]"
    and n: "urlCount b' = urlCount threeIssued
      + length (filter (\<lambda>img. \<not> conversionFailed sampleEnv img) [holidayConverted, brokenFailed])"
    and u: "created rest = map ObjectURL [urlCount threeIssued ..< urlCount b']"
    and v: "map convertedUrl (filter (\<lambda>r. error r = None) (resolutions rest))
               = map Some (created rest)"
    and l: "list_all2 (\<lambda>img r. \<exists>bk. snd (snd (convertImage sampleEnv bk img)) = Resolved r)
              [holidayConverted, brokenFailed] (resolutions rest)"
    by (elim exE conjE)
  from n cnt have n': "urlCount b' = 4" by (simp only:)
  from u n' three span have u': "created rest = [ObjectURL 3]" by (simp only:)
  from v u' have v': "map convertedUrl (filter (\<lambda>r. error r = None) (resolutions rest))
              = [Some (ObjectURL 3)]" by (simp only: list.map)
  from run marked have run': "convertAllImages sampleEnv [holidayConverted, brokenFailed] threeIssued
            [holidayConverted, brokenFailed] =
            (SetIsConverting True
               # SetImages [holidayConverted\<lparr>converting := True\<rparr>,
                            broken\<lparr>converting := True\<rparr>]
               # rest @ [SetIsConverting False],
             b', prev', Resolved ())"
    by (simp only:)
  from p ps have p': "paints rest = [FillRect ''#FFFFFF'' 0 0 4 3, DrawImage (ObjectURL 0) 0 0]"
    by (simp only:)
  from q en have q': "encodings rest = [''image/jpeg'']" by (simp only:)
  from f fl have f': "map (\<lambda>r. error r \<noteq> None) (resolutions rest) = [False, True]"
    by (simp only:)
  have ex: "\<exists>rest b' prev'.
          convertAllImages sampleEnv [holidayConverted, brokenFailed] threeIssued
            [holidayConverted, brokenFailed] =
            (SetIsConverting True
               # SetImages [holidayConverted\<lparr>converting := True\<rparr>,
                            broken\<lparr>converting := True\<rparr>]
               # rest @ [SetIsConverting False],
             b', prev', Resolved ())
          \<and> conversions rest = [holidayConverted, brokenFailed]
          \<and> paints rest = [FillRect ''#FFFFFF'' 0 0 4 3, DrawImage (ObjectURL 0) 0 0]
          \<and> encodings rest = [''image/jpeg'']
          \<and> map (\<lambda>r. error r \<noteq> None) (resolutions rest) = [False, True]
          \<and> urlCount b' = 4
          \<and> created rest = [ObjectURL 3]
          \<and> map convertedUrl (filter (\<lambda>r. error r = None) (resolutions rest))
              = [Some (ObjectURL 3)]"
    using run' c p' q' f' n' u' v' by (intro exI conjI)
  from empty ne old err ex show ?thesis by (intro conjI)
qed

end
